theory Spec2Isabelle
  imports Complex_Main "HOL-Library.Word"
begin

section \<open>Values received from the analysis service\<close>

text \<open>
  The component of \<^verbatim>\<open>RecordButton.tsx\<close> receives text messages on a WebSocket and hands
  each one to \<^verbatim>\<open>JSON.parse\<close>. A parsed value is one of the six kinds of JSON value. A number
  is an IEEE double; \<^verbatim>\<open>JSON.parse\<close> never yields NaN, and the two zeros behave alike in
  every place the component looks at a number (truthiness, \<^verbatim>\<open>toFixed\<close>), so a finite double
  is represented by its rational value. An object is the list of its own properties, each
  key once.
\<close>

datatype jsnum = Finite rat | PosInfinity | NegInfinity

datatype json =
    JNull
  | JBool bool
  | JNum jsnum
  | JStr string
  | JArr "json list"
  | JObj "(string \<times> json) list"

text \<open>Exceptions and promise rejections, by the name of their class.\<close>

datatype js_error =
    SyntaxError
  | TypeError
  | InvalidStateError
  | NotAllowedError
  | NotFoundError
  | NotSupportedError
  | AbortError

text \<open>
  Reading a property of a parsed value, \<^verbatim>\<open>data.k\<close>, for the four names the component reads
  (\<^verbatim>\<open>type\<close>, \<^verbatim>\<open>note\<close>, \<^verbatim>\<open>start_time\<close>, \<^verbatim>\<open>duration\<close>): on \<^verbatim>\<open>null\<close> it throws a TypeError; on an
  object it is the own property or \<^verbatim>\<open>undefined\<close> (here \<open>None\<close>); on a boolean, number,
  string or array none of the four names exists, so the result is \<^verbatim>\<open>undefined\<close>.
\<close>

fun js_get :: "json \<Rightarrow> string \<Rightarrow> js_error + json option" where
  "js_get JNull k = Inl TypeError"
| "js_get (JObj kvs) k = Inr (map_of kvs k)"
| "js_get v k = Inr None"

text \<open>The truthiness test of \<^verbatim>\<open>if (data.note)\<close>.\<close>

fun truthy :: "json option \<Rightarrow> bool" where
  "truthy None = False"
| "truthy (Some JNull) = False"
| "truthy (Some (JBool b)) = b"
| "truthy (Some (JNum n)) = (n \<noteq> Finite 0)"
| "truthy (Some (JStr s)) = (s \<noteq> [])"
| "truthy (Some (JArr xs)) = True"
| "truthy (Some (JObj kvs)) = True"

text \<open>
  The string conversion of a template literal, \<^verbatim>\<open>${data.note}\<close>. It succeeds on every
  primitive and on \<^verbatim>\<open>undefined\<close>. On an object it calls \<^verbatim>\<open>toString\<close>, which is the one of
  \<^verbatim>\<open>Object.prototype\<close> unless the object has an own property of that name; a parsed value
  is never callable, so with such a property the conversion throws a TypeError. An array
  is joined, converting every element other than \<^verbatim>\<open>null\<close> the same way. The join
  recurses into nested arrays; \<open>stringifiable\<close> describes it for values nested less
  deeply than the engine's stack allows (some thousands of levels). Beyond that depth the
  conversion throws a RangeError instead, which the same \<^verbatim>\<open>catch\<close> receives; that case is
  not part of this description.
\<close>

fun stringifiable :: "json \<Rightarrow> bool" where
  "stringifiable (JObj kvs) = (map_of kvs ''toString'' = None)"
| "stringifiable (JArr xs) = list_all stringifiable xs"
| "stringifiable v = True"

definition template_string :: "json option \<Rightarrow> js_error + json option" where
  "template_string v =
     (case v of
        None \<Rightarrow> Inr None
      | Some x \<Rightarrow> if stringifiable x then Inr (Some x) else Inl TypeError)"

text \<open>
  \<^verbatim>\<open>x?.toFixed(3)\<close>: \<^verbatim>\<open>undefined\<close> when \<^verbatim>\<open>x\<close> is \<^verbatim>\<open>undefined\<close> or \<^verbatim>\<open>null\<close>; the formatted number
  when \<^verbatim>\<open>x\<close> is a number; otherwise \<^verbatim>\<open>x.toFixed\<close> is not a function and the call throws
  a TypeError. The formatted text is kept as the number it formats.
\<close>

datatype fixed3 = Undefined | Fixed3 jsnum

fun toFixed3 :: "json option \<Rightarrow> js_error + fixed3" where
  "toFixed3 None = Inr Undefined"
| "toFixed3 (Some JNull) = Inr Undefined"
| "toFixed3 (Some (JNum n)) = Inr (Fixed3 n)"
| "toFixed3 (Some v) = Inl TypeError"

section \<open>The component and the platform objects it owns\<close>

text \<open>
  Lines written to the console. \<^verbatim>\<open>console.log\<close> and \<^verbatim>\<open>console.error\<close> are the two channels:
  the lines named \<open>Log\<close> go to the first, those named \<open>Error\<close> to the second. A line keeps
  the values interpolated into it instead of the formatted text.
\<close>

datatype console_entry =
    Log_WebSocket_connected
  | Log_Note_ON "json option" fixed3
  | Log_Note_OFF "json option" fixed3 fixed3
  | Log_Silence_Reset
  | Error_Audio_setup_failed js_error
  | Error_JSON_Parse_Error js_error

text \<open>
  The \<^verbatim>\<open>readyState\<close> of a WebSocket, and the state of an AudioContext, where \<open>Running\<close>
  stands for every state but closed.
\<close>

datatype readyState = CONNECTING | OPEN | CLOSING | CLOSED

datatype ctxState = Running | Closed

text \<open>A frame as the main thread receives it: the samples, as IEEE-754 single bit patterns.\<close>

type_synonym sample = "32 word"
type_synonym frame = "sample list"

text \<open>
  The asynchronous function \<^verbatim>\<open>onopen\<close> is suspended at its two \<^verbatim>\<open>await\<close>s. A suspended
  run is a task holding what the rest of the function needs: the socket whose \<^verbatim>\<open>onopen\<close>
  it is (for the record only, the code does not capture it), and after the first
  \<^verbatim>\<open>await\<close> the context and the media stream.
\<close>

datatype task =
    AwaitGetUserMedia nat
  | AwaitAddModule nat nat nat

text \<open>What has happened so far, in order: platform calls made and platform signals received.\<close>

datatype action =
    NewWebSocket nat
  | Opened nat
  | GetUserMedia nat
  | Granted nat
  | Installed nat
  | Wired nat

text \<open>
  The state: the component's \<^verbatim>\<open>isRecording\<close> and its three refs, and the platform objects
  made so far. A WebSocket, an AudioContext and an AudioWorkletNode are named by their
  position in the list of all objects of their kind; \<open>nodes\<close> gives the context of each
  worklet node whose port has its \<^verbatim>\<open>onmessage\<close> handler. \<open>sent\<close> is what went out on the
  sockets, \<open>unhandled\<close> the promise rejections nobody handled.
\<close>

record world =
  isRecording :: bool
  socketRef :: "nat option"
  audioContextRef :: "nat option"
  workletNodeRef :: "nat option"
  sockets :: "readyState list"
  contexts :: "ctxState list"
  nodes :: "nat list"
  pending :: "task list"
  console :: "console_entry list"
  sent :: "(nat \<times> frame) list"
  unhandled :: "js_error list"
  trace :: "action list"

definition init :: world where
  "init = \<lparr> isRecording = False, socketRef = None, audioContextRef = None,
            workletNodeRef = None, sockets = [], contexts = [], nodes = [],
            pending = [], console = [], sent = [], unhandled = [], trace = [] \<rparr>"

definition console_write :: "console_entry \<Rightarrow> world \<Rightarrow> world" where
  "console_write e w = w\<lparr>console := console w @ [e]\<rparr>"

subsection \<open>Platform calls\<close>

text \<open>
  \<^verbatim>\<open>WebSocket.close()\<close> without arguments never throws: a connecting or open socket starts
  closing, a closing or closed one is left as it is. The close event comes later.
\<close>

fun ws_close :: "readyState \<Rightarrow> readyState" where
  "ws_close CONNECTING = CLOSING"
| "ws_close OPEN = CLOSING"
| "ws_close CLOSING = CLOSING"
| "ws_close CLOSED = CLOSED"

definition WebSocket_close :: "nat \<Rightarrow> world \<Rightarrow> world" where
  "WebSocket_close s w = w\<lparr>sockets := (sockets w)[s := ws_close (sockets w ! s)]\<rparr>"

text \<open>
  \<^verbatim>\<open>WebSocket.send(data)\<close> throws InvalidStateError on a connecting socket, transmits one
  message on an open one, and discards the data on a closing or closed one.
\<close>

definition WebSocket_send :: "nat \<Rightarrow> frame \<Rightarrow> world \<Rightarrow> js_error + world" where
  "WebSocket_send s d w =
     (case sockets w ! s of
        CONNECTING \<Rightarrow> Inl InvalidStateError
      | OPEN \<Rightarrow> Inr (w\<lparr>sent := sent w @ [(s, d)]\<rparr>)
      | CLOSING \<Rightarrow> Inr w
      | CLOSED \<Rightarrow> Inr w)"

text \<open>
  \<^verbatim>\<open>AudioContext.close()\<close> returns a promise and never throws; on a closed context the
  promise is rejected, and the component attaches no handler to it.
\<close>

definition AudioContext_close :: "nat \<Rightarrow> world \<Rightarrow> world" where
  "AudioContext_close c w =
     (case contexts w ! c of
        Running \<Rightarrow> w\<lparr>contexts := (contexts w)[c := Closed]\<rparr>
      | Closed \<Rightarrow> w\<lparr>unhandled := unhandled w @ [InvalidStateError]\<rparr>)"

subsection \<open>The functions of the component\<close>

text \<open>
  \<^verbatim>\<open>startStreaming\<close>: a new WebSocket, stored in \<^verbatim>\<open>socketRef\<close>, with its three handlers. The
  address is a constant of the source, and the constructor is taken to succeed.
\<close>

definition startStreaming :: "world \<Rightarrow> world" where
  "startStreaming w =
     (let s = length (sockets w)
      in w\<lparr>socketRef := Some s,
           sockets := sockets w @ [CONNECTING],
           trace := trace w @ [NewWebSocket s]\<rparr>)"

text \<open>
  \<^verbatim>\<open>stopAudio\<close>: the context and the socket held in the refs are closed and the refs
  emptied, then \<^verbatim>\<open>isRecording\<close> is reset.
\<close>

definition stopAudio :: "world \<Rightarrow> world" where
  "stopAudio w =
     (let w1 = (case audioContextRef w of
                  None \<Rightarrow> w
                | Some c \<Rightarrow> (AudioContext_close c w)\<lparr>audioContextRef := None\<rparr>);
          w2 = (case socketRef w1 of
                  None \<Rightarrow> w1
                | Some s \<Rightarrow> (WebSocket_close s w1)\<lparr>socketRef := None\<rparr>)
      in w2\<lparr>isRecording := False\<rparr>)"

text \<open>
  \<^verbatim>\<open>handleServerEvent\<close> is a \<^verbatim>\<open>switch\<close> on \<^verbatim>\<open>data.type\<close> without a default branch, and every
  branch ends in at most one \<^verbatim>\<open>console.log\<close>. \<open>event_line\<close> is the \<^verbatim>\<open>switch\<close> up to that call:
  the line to be logged, if any, or the exception thrown while the line is put together.
\<close>

definition event_line :: "json \<Rightarrow> js_error + console_entry option" where
  "event_line data =
     (case js_get data ''type'' of
        Inl e \<Rightarrow> Inl e
      | Inr t \<Rightarrow>
          if t = Some (JStr ''note_on'') then
            (case js_get data ''note'' of
               Inl e \<Rightarrow> Inl e
             | Inr note \<Rightarrow>
                 if truthy note then
                   (case template_string note of
                      Inl e \<Rightarrow> Inl e
                    | Inr n \<Rightarrow>
                       (case js_get data ''start_time'' of
                          Inl e \<Rightarrow> Inl e
                        | Inr st \<Rightarrow>
                           (case toFixed3 st of
                              Inl e \<Rightarrow> Inl e
                            | Inr f \<Rightarrow> Inr (Some (Log_Note_ON n f)))))
                 else Inr None)
          else if t = Some (JStr ''note_off'') then
            (case js_get data ''note'' of
               Inl e \<Rightarrow> Inl e
             | Inr note \<Rightarrow>
                (case template_string note of
                   Inl e \<Rightarrow> Inl e
                 | Inr n \<Rightarrow>
                    (case js_get data ''start_time'' of
                       Inl e \<Rightarrow> Inl e
                     | Inr st \<Rightarrow>
                        (case toFixed3 st of
                           Inl e \<Rightarrow> Inl e
                         | Inr f \<Rightarrow>
                            (case js_get data ''duration'' of
                               Inl e \<Rightarrow> Inl e
                             | Inr du \<Rightarrow>
                                (case toFixed3 du of
                                   Inl e \<Rightarrow> Inl e
                                 | Inr g \<Rightarrow> Inr (Some (Log_Note_OFF n f g))))))))
          else if t = Some (JStr ''volume'') then Inr None
          else if t = Some (JStr ''silence_reset'') then Inr (Some Log_Silence_Reset)
          else Inr None)"

definition handleServerEvent :: "json \<Rightarrow> world \<Rightarrow> js_error + world" where
  "handleServerEvent data w =
     (case event_line data of
        Inl e \<Rightarrow> Inl e
      | Inr None \<Rightarrow> Inr w
      | Inr (Some l) \<Rightarrow> Inr (console_write l w))"

text \<open>
  The \<^verbatim>\<open>onmessage\<close> handler of the socket. \<^verbatim>\<open>JSON.parse\<close> belongs to the platform and is a
  parameter: \<open>parse p\<close> is \<open>None\<close> where \<^verbatim>\<open>JSON.parse\<close> throws its SyntaxError. The one
  \<^verbatim>\<open>catch\<close> receives that error and whatever \<^verbatim>\<open>handleServerEvent\<close> throws.
\<close>

definition socket_onmessage :: "('p \<Rightarrow> json option) \<Rightarrow> 'p \<Rightarrow> world \<Rightarrow> world" where
  "socket_onmessage parse p w =
     (case parse p of
        None \<Rightarrow> console_write (Error_JSON_Parse_Error SyntaxError) w
      | Some data \<Rightarrow>
         (case handleServerEvent data w of
            Inl e \<Rightarrow> console_write (Error_JSON_Parse_Error e) w
          | Inr w' \<Rightarrow> w'))"

text \<open>The lines one inbound message puts on the console.\<close>

definition message_lines :: "('p \<Rightarrow> json option) \<Rightarrow> 'p \<Rightarrow> console_entry list" where
  "message_lines parse p = console (socket_onmessage parse p init)"

text \<open>The \<^verbatim>\<open>onclose\<close> handler of the socket.\<close>

definition socket_onclose :: "world \<Rightarrow> world" where
  "socket_onclose w = stopAudio (w\<lparr>isRecording := False\<rparr>)"

text \<open>
  The \<^verbatim>\<open>onmessage\<close> handler of the worklet node's port: a frame posted by the producer is
  sent on the socket in \<^verbatim>\<open>socketRef\<close> if there is one and it is open.
\<close>

definition port_onmessage :: "frame \<Rightarrow> world \<Rightarrow> js_error + world" where
  "port_onmessage d w =
     (case socketRef w of
        None \<Rightarrow> Inr w
      | Some s \<Rightarrow> if sockets w ! s = OPEN then WebSocket_send s d w else Inr w)"

text \<open>
  The \<^verbatim>\<open>catch\<close> block of \<^verbatim>\<open>onopen\<close>: the error is written to the console, the socket in
  \<^verbatim>\<open>socketRef\<close> (if any) is closed, and \<^verbatim>\<open>isRecording\<close> is reset.
\<close>

definition audio_setup_failed :: "js_error \<Rightarrow> world \<Rightarrow> world" where
  "audio_setup_failed err w =
     (let w1 = console_write (Error_Audio_setup_failed err) w;
          w2 = (case socketRef w1 of
                  None \<Rightarrow> w1
                | Some s \<Rightarrow> WebSocket_close s w1)
      in w2\<lparr>isRecording := False\<rparr>)"

text \<open>
  The \<^verbatim>\<open>onopen\<close> handler of socket \<open>s\<close>, up to its first \<^verbatim>\<open>await\<close>: it logs, sets
  \<^verbatim>\<open>isRecording\<close>, asks for the microphone and is suspended.
\<close>

definition socket_onopen :: "nat \<Rightarrow> world \<Rightarrow> world" where
  "socket_onopen s w =
     (let w1 = console_write Log_WebSocket_connected w
      in w1\<lparr>isRecording := True,
            trace := trace w1 @ [GetUserMedia s],
            pending := pending w1 @ [AwaitGetUserMedia s]\<rparr>)"

text \<open>
  What the platform answers while a suspended \<^verbatim>\<open>onopen\<close> runs on: the outcome of the
  awaited promise and of the constructors and calls that can throw. \<open>Some e\<close> is the
  exception thrown or the reason of the rejection.
\<close>

record platform =
  getUserMedia :: "js_error + nat"
  newAudioContext :: "js_error option"
  addModule :: "js_error option"
  createMediaStreamSource :: "js_error option"
  newAudioWorkletNode :: "js_error option"

text \<open>
  The rest of \<^verbatim>\<open>onopen\<close> after each \<^verbatim>\<open>await\<close>. After \<^verbatim>\<open>getUserMedia\<close>: the AudioContext is
  made and stored in \<^verbatim>\<open>audioContextRef\<close>, and \<^verbatim>\<open>addModule\<close> is awaited. After \<^verbatim>\<open>addModule\<close>:
  the source and the worklet node are made, the node is stored in \<^verbatim>\<open>workletNodeRef\<close>, its
  port gets the handler \<open>port_onmessage\<close>, and the graph is connected. Every failure goes
  to the \<^verbatim>\<open>catch\<close> block.
\<close>

fun resume :: "task \<Rightarrow> platform \<Rightarrow> world \<Rightarrow> world" where
  "resume (AwaitGetUserMedia s) pf w =
     (case getUserMedia pf of
        Inl e \<Rightarrow> audio_setup_failed e w
      | Inr stream \<Rightarrow>
          (let w1 = w\<lparr>trace := trace w @ [Granted s]\<rparr>
           in case newAudioContext pf of
                Some e \<Rightarrow> audio_setup_failed e w1
              | None \<Rightarrow>
                  (let c = length (contexts w1)
                   in w1\<lparr>contexts := contexts w1 @ [Running],
                         audioContextRef := Some c,
                         pending := pending w1 @ [AwaitAddModule s c stream]\<rparr>)))"
| "resume (AwaitAddModule s c stream) pf w =
     (case addModule pf of
        Some e \<Rightarrow> audio_setup_failed e w
      | None \<Rightarrow>
         (case createMediaStreamSource pf of
            Some e \<Rightarrow> audio_setup_failed e w
          | None \<Rightarrow>
             (case newAudioWorkletNode pf of
                Some e \<Rightarrow> audio_setup_failed e w
              | None \<Rightarrow>
                  (let n = length (nodes w)
                   in w\<lparr>nodes := nodes w @ [c],
                        workletNodeRef := Some n,
                        trace := trace w @ [Installed s, Wired s]\<rparr>))))"

subsection \<open>The event loop\<close>

text \<open>
  One task of the main thread: a click on the button, the unmounting of the component, a
  signal of a socket, the settling of an awaited promise, or a frame arriving on the port
  of a worklet node. The platform opens a socket only while it is connecting, delivers a
  message only while it is open, and closes it once. An exception leaving a handler is
  reported by the platform and ends that handler only.
\<close>

datatype 'p event =
    Click
  | Unmount
  | SockOpen nat
  | SockMessage nat 'p
  | SockClose nat
  | Settle nat platform
  | PortMessage nat frame

fun step :: "('p \<Rightarrow> json option) \<Rightarrow> 'p event \<Rightarrow> world \<Rightarrow> world" where
  "step parse Click w = (if isRecording w then stopAudio w else startStreaming w)"
| "step parse Unmount w = stopAudio w"
| "step parse (SockOpen s) w =
     (if s < length (sockets w) \<and> sockets w ! s = CONNECTING
      then socket_onopen s (w\<lparr>sockets := (sockets w)[s := OPEN],
                              trace := trace w @ [Opened s]\<rparr>)
      else w)"
| "step parse (SockMessage s p) w =
     (if s < length (sockets w) \<and> sockets w ! s = OPEN
      then socket_onmessage parse p w
      else w)"
| "step parse (SockClose s) w =
     (if s < length (sockets w) \<and> sockets w ! s \<noteq> CLOSED
      then socket_onclose (w\<lparr>sockets := (sockets w)[s := CLOSED]\<rparr>)
      else w)"
| "step parse (Settle i pf) w =
     (if i < length (pending w)
      then resume (pending w ! i) pf
             (w\<lparr>pending := take i (pending w) @ drop (Suc i) (pending w)\<rparr>)
      else w)"
| "step parse (PortMessage n d) w =
     (if n < length (nodes w)
      then (case port_onmessage d w of
              Inl e \<Rightarrow> w\<lparr>unhandled := unhandled w @ [e]\<rparr>
            | Inr w' \<Rightarrow> w')
      else w)"

fun run :: "('p \<Rightarrow> json option) \<Rightarrow> 'p event list \<Rightarrow> world \<Rightarrow> world" where
  "run parse [] w = w"
| "run parse (e # es) w = run parse es (step parse e w)"

text \<open>A click while \<^verbatim>\<open>isRecording\<close> is false is a start request.\<close>

fun is_start :: "'p event \<Rightarrow> world \<Rightarrow> bool" where
  "is_start Click w = (\<not> isRecording w)"
| "is_start e w = False"

text \<open>No event of the run is a start request.\<close>

fun no_start :: "('p \<Rightarrow> json option) \<Rightarrow> 'p event list \<Rightarrow> world \<Rightarrow> bool" where
  "no_start parse [] w = True"
| "no_start parse (e # es) w = (\<not> is_start e w \<and> no_start parse es (step parse e w))"

text \<open>
  The socket \<open>s\<close> is the one in \<^verbatim>\<open>socketRef\<close>, or \<^verbatim>\<open>socketRef\<close> is empty and \<open>s\<close> is
  closing or closed.
\<close>

definition held_or_released :: "nat \<Rightarrow> world \<Rightarrow> bool" where
  "held_or_released s w =
     (s < length (sockets w) \<and>
      (socketRef w = Some s \<or>
       (socketRef w = None \<and> (sockets w ! s = CLOSING \<or> sockets w ! s = CLOSED))))"

text \<open>In a list of actions, every \<open>b\<close> has an \<open>a\<close> somewhere before it.\<close>

fun preceded :: "action \<Rightarrow> action \<Rightarrow> action list \<Rightarrow> bool" where
  "preceded a b [] = True"
| "preceded a b (x # xs) = (x = a \<or> (x \<noteq> b \<and> preceded a b xs))"

text \<open>
  The order of a session in the list of actions: the socket is made before it opens, it
  opens before the microphone is asked for, the microphone is asked for before it is
  granted, it is granted before the producer is installed, and the producer is installed
  before its port is wired to the send.
\<close>

definition session_order :: "nat \<Rightarrow> action list \<Rightarrow> bool" where
  "session_order s tr =
     (preceded (NewWebSocket s) (Opened s) tr \<and>
      preceded (Opened s) (GetUserMedia s) tr \<and>
      preceded (GetUserMedia s) (Granted s) tr \<and>
      preceded (Granted s) (Installed s) tr \<and>
      preceded (Installed s) (Wired s) tr \<and>
      preceded (Opened s) (Wired s) tr)"

text \<open>What has happened before a suspended \<^verbatim>\<open>onopen\<close> can go on.\<close>

fun task_ok :: "action list \<Rightarrow> task \<Rightarrow> bool" where
  "task_ok tr (AwaitGetUserMedia s) = (Opened s \<in> set tr \<and> GetUserMedia s \<in> set tr)"
| "task_ok tr (AwaitAddModule s c stream) =
     (Opened s \<in> set tr \<and> GetUserMedia s \<in> set tr \<and> Granted s \<in> set tr)"

definition trace_inv :: "world \<Rightarrow> bool" where
  "trace_inv w =
     ((\<forall>s < length (sockets w). NewWebSocket s \<in> set (trace w)) \<and>
      (\<forall>t \<in> set (pending w). task_ok (trace w) t) \<and>
      (\<forall>s. session_order s (trace w)))"

section \<open>The producer on the rendering thread\<close>

text \<open>
  \<^verbatim>\<open>audioprocessor.js\<close>. A Float32Array is an object of the heap of the rendering thread,
  named by its position there; \<^verbatim>\<open>inputs[i][ch]\<close> is such a name, given by the rendering
  engine. \<^verbatim>\<open>new Float32Array(a)\<close> makes a new object with the contents of \<^verbatim>\<open>a\<close>;
  \<^verbatim>\<open>port.postMessage(a)\<close> puts a clone of the contents on the port. \<open>emitted\<close> lists the
  objects given to \<^verbatim>\<open>postMessage\<close>, \<open>messages\<close> what went on the port.
\<close>

record worklet =
  heap :: "sample list list"
  emitted :: "nat list"
  messages :: "frame list"

definition process :: "nat list list \<Rightarrow> worklet \<Rightarrow> worklet \<times> bool" where
  "process inputs r =
     (case inputs of
        [] \<Rightarrow> (r, True)
      | input # others \<Rightarrow>
          (case input of
             [] \<Rightarrow> (r, True)
           | ch0 # chs \<Rightarrow>
               (let outputData = length (heap r);
                    r1 = r\<lparr>heap := heap r @ [heap r ! ch0]\<rparr>
                in (r1\<lparr>emitted := emitted r1 @ [outputData],
                        messages := messages r1 @ [heap r1 ! outputData]\<rparr>, True))))"

text \<open>The calls of \<^verbatim>\<open>process\<close> the rendering engine makes, one per quantum.\<close>

fun render :: "nat list list list \<Rightarrow> worklet \<Rightarrow> worklet" where
  "render [] r = r"
| "render (inputs # rest) r = render rest (fst (process inputs r))"

text \<open>The objects posted so far are objects of the heap, each posted once.\<close>

definition frames_exist :: "worklet \<Rightarrow> bool" where
  "frames_exist r = (distinct (emitted r) \<and> (\<forall>b \<in> set (emitted r). b < length (heap r)))"

text \<open>Writing sample \<open>i\<close> of the object \<open>a\<close>.\<close>

definition write_sample :: "nat \<Rightarrow> nat \<Rightarrow> sample \<Rightarrow> sample list list \<Rightarrow> sample list list" where
  "write_sample a i v h = h[a := (h ! a)[i := v]]"

section \<open>Fixtures\<close>

text \<open>
  States and platform answers for the concrete checks: a rendering thread with one buffer
  of the engine, a platform that grants everything, and one that denies the microphone.
\<close>

definition worklet0 :: worklet where
  "worklet0 = \<lparr> heap = [[1, 2, 3]], emitted = [], messages = [] \<rparr>"

definition granted :: platform where
  "granted = \<lparr> getUserMedia = Inr 0, newAudioContext = None, addModule = None,
               createMediaStreamSource = None, newAudioWorkletNode = None \<rparr>"

text \<open>A session that streams: the socket is open, the context is made, the node is wired.\<close>

definition streaming :: world where
  "streaming =
     run (id :: json option \<Rightarrow> json option)
       [Click, SockOpen 0, Settle 0 granted, Settle 0 granted] init"

text \<open>
  Two sessions alive at once: a second start request made before the first socket has
  opened, then both sockets open and both set up their audio. The refs hold the socket
  and the context of the second session only.
\<close>

definition two_sessions :: world where
  "two_sessions =
     run (id :: json option \<Rightarrow> json option)
       [Click, Click, SockOpen 0, SockOpen 1,
        Settle 0 granted, Settle 0 granted, Settle 0 granted, Settle 0 granted] init"

definition denied :: platform where
  "denied = \<lparr> getUserMedia = Inl NotAllowedError, newAudioContext = None, addModule = None,
              createMediaStreamSource = None, newAudioWorkletNode = None \<rparr>"

section \<open>The producer keeps itself alive\<close>

text \<open>
  C8. Every call of \<^verbatim>\<open>process\<close> returns \<^verbatim>\<open>true\<close>, the signal to keep the processor alive;
  when there is no input (no first input, or a first input without channels) the call
  changes nothing: no object is made and nothing is posted.
\<close>

theorem process_keeps_alive:
  "snd (process inputs r) = True \<and>
   ((inputs = [] \<or> hd inputs = []) \<longrightarrow> fst (process inputs r) = r)"
  by (simp add: process_def Let_def split: list.splits)

theorem process_keeps_alive_witness:
  "snd (process [[]] worklet0) = True \<and> fst (process [[]] worklet0) = worklet0 \<and>
   snd (process [[0]] worklet0) = True"
  using process_keeps_alive [of "[[]]" worklet0] process_keeps_alive [of "[[0]]" worklet0]
  by simp

section \<open>Inbound messages\<close>

lemma event_line_silent:
  assumes "js_get data ''type'' = Inr (Some (JStr ''re_trigger'')) \<or>
           (js_get data ''type'' = Inr (Some (JStr ''note_on'')) \<and> js_get data ''note'' = Inr None)"
  shows "event_line data = Inr None"
  using assms by (elim disjE conjE) (simp_all add: event_line_def)

text \<open>
  C10. A parsed event whose \<^verbatim>\<open>type\<close> is \<^verbatim>\<open>re_trigger\<close>, and a \<^verbatim>\<open>note_on\<close> event without a
  \<^verbatim>\<open>note\<close> field, produce nothing: \<^verbatim>\<open>handleServerEvent\<close> returns normally with the state
  as it was, and so does the \<^verbatim>\<open>onmessage\<close> handler of a message that parses to such an
  event.
\<close>

theorem silent_variants:
  assumes "js_get data ''type'' = Inr (Some (JStr ''re_trigger'')) \<or>
           (js_get data ''type'' = Inr (Some (JStr ''note_on'')) \<and> js_get data ''note'' = Inr None)"
  shows "handleServerEvent data w = Inr w \<and>
         (parse p = Some data \<longrightarrow> socket_onmessage parse p w = w)"
  using event_line_silent [OF assms] by (simp add: handleServerEvent_def socket_onmessage_def)

theorem silent_variants_witness:
  "handleServerEvent (JObj [(''type'', JStr ''re_trigger''), (''note'', JStr ''A4'')]) init = Inr init \<and>
   socket_onmessage id (Some (JObj [(''type'', JStr ''note_on''), (''start_time'', JStr ''x'')])) init = init"
  using silent_variants [where data = "JObj [(''type'', JStr ''re_trigger''), (''note'', JStr ''A4'')]"
      and w = init and parse = id
      and p = "Some (JObj [(''type'', JStr ''re_trigger''), (''note'', JStr ''A4'')])"]
    silent_variants [where data = "JObj [(''type'', JStr ''note_on''), (''start_time'', JStr ''x'')]"
      and w = init and parse = id
      and p = "Some (JObj [(''type'', JStr ''note_on''), (''start_time'', JStr ''x'')])"]
  by simp

lemma socket_onmessage_lines:
  "socket_onmessage parse p w = w\<lparr>console := console w @ message_lines parse p\<rparr>"
  by (simp add: message_lines_def socket_onmessage_def handleServerEvent_def console_write_def
      init_def split: option.splits sum.splits)

lemma fold_onmessage_lines:
  "fold (socket_onmessage parse) ps w =
     w\<lparr>console := console w @ concat (map (message_lines parse) ps)\<rparr>"
  by (induction ps arbitrary: w) (simp_all add: socket_onmessage_lines)

text \<open>
  C5. A message that \<^verbatim>\<open>JSON.parse\<close> rejects puts one line on the error console, the
  JSON Parse Error with the SyntaxError, and changes nothing else: the socket, the
  context and \<^verbatim>\<open>isRecording\<close> stay as they are, and the handler returns normally. In a
  sequence of messages the ones before and after it are handled as they are without it:
  each contributes its own lines, in order.
\<close>

theorem malformed_message_isolated:
  assumes "parse p = None"
  shows "socket_onmessage parse p w =
           w\<lparr>console := console w @ [Error_JSON_Parse_Error SyntaxError]\<rparr> \<and>
         fold (socket_onmessage parse) (before @ p # after) w =
           w\<lparr>console := console w @ concat (map (message_lines parse) before)
                          @ [Error_JSON_Parse_Error SyntaxError]
                          @ concat (map (message_lines parse) after)\<rparr>"
proof -
  have l: "message_lines parse p = [Error_JSON_Parse_Error SyntaxError]"
    using assms by (simp add: message_lines_def socket_onmessage_def console_write_def init_def)
  show ?thesis
    by (simp add: fold_onmessage_lines socket_onmessage_lines l)
qed

theorem malformed_message_isolated_witness:
  "id (None :: json option) = None \<and>
   fold (socket_onmessage id)
     [Some (JObj [(''type'', JStr ''silence_reset'')]), None,
      Some (JObj [(''type'', JStr ''silence_reset'')])] init =
     init\<lparr>console := [Log_Silence_Reset, Error_JSON_Parse_Error SyntaxError, Log_Silence_Reset]\<rparr>"
  using malformed_message_isolated [where parse = id and p = None and w = init
      and before = "[Some (JObj [(''type'', JStr ''silence_reset'')])]"
      and after = "[Some (JObj [(''type'', JStr ''silence_reset'')])]"]
  by (simp add: message_lines_def socket_onmessage_def handleServerEvent_def event_line_def
      console_write_def init_def)

lemma event_line_unknown:
  assumes "\<forall>t \<in> {''note_on'', ''note_off'', ''re_trigger'', ''volume'', ''silence_reset''}.
           js_get data ''type'' \<noteq> Inr (Some (JStr t))"
  shows "event_line data = (if data = JNull then Inl TypeError else Inr None)"
proof (cases "js_get data ''type''")
  case (Inl e)
  then show ?thesis by (cases data) (simp_all add: event_line_def)
next
  case (Inr t)
  then have "data \<noteq> JNull" by auto
  then show ?thesis using Inr assms by (simp add: event_line_def)
qed

text \<open>
  C1, as the code has it. The component has no rejection for an unknown \<^verbatim>\<open>type\<close>: a
  message that parses and whose \<^verbatim>\<open>type\<close> is absent or none of the five tags is ignored
  without any output and without any change of state. The one exception is the parsed
  value \<^verbatim>\<open>null\<close>, where reading \<^verbatim>\<open>type\<close> throws; the handler catches the TypeError and
  writes it to the error console as a JSON Parse Error. In both cases the handler returns
  normally and the branch of no variant is taken.
\<close>

theorem unknown_type_ignored:
  assumes "parse p = Some data"
    and "\<forall>t \<in> {''note_on'', ''note_off'', ''re_trigger'', ''volume'', ''silence_reset''}.
           js_get data ''type'' \<noteq> Inr (Some (JStr t))"
  shows "socket_onmessage parse p w =
           (if data = JNull
            then w\<lparr>console := console w @ [Error_JSON_Parse_Error TypeError]\<rparr>
            else w)"
  using assms(1) event_line_unknown [OF assms(2)]
  by (simp add: socket_onmessage_def handleServerEvent_def console_write_def)

theorem unknown_type_ignored_witness:
  "socket_onmessage id (Some (JObj [(''type'', JStr ''bogus'')])) init = init \<and>
   socket_onmessage id (Some JNull) init =
     init\<lparr>console := [Error_JSON_Parse_Error TypeError]\<rparr>"
  using unknown_type_ignored [where parse = id and p = "Some (JObj [(''type'', JStr ''bogus'')])"
      and data = "JObj [(''type'', JStr ''bogus'')]" and w = init]
    unknown_type_ignored [where parse = id and p = "Some JNull" and data = JNull and w = init]
  by (simp add: init_def)

text \<open>
  The claim C1 as the specification states it fails: the message \<^verbatim>\<open>{}\<close>, which has no
  \<^verbatim>\<open>type\<close>, and a message with the unknown type \<^verbatim>\<open>bogus\<close> are handled without any line on
  the console, so no rejection can be observed.
\<close>

theorem unknown_type_counterexample:
  "js_get (JObj []) ''type'' = Inr None \<and>
   socket_onmessage id (Some (JObj [])) init = init \<and>
   js_get (JObj [(''type'', JStr ''bogus'')]) ''type'' = Inr (Some (JStr ''bogus'')) \<and>
   console (socket_onmessage id (Some (JObj [(''type'', JStr ''bogus'')])) init) = []"
  by (simp add: socket_onmessage_def handleServerEvent_def event_line_def init_def)

section \<open>Outbound frames\<close>

lemma port_onmessage_cases:
  "port_onmessage d w =
     (case socketRef w of
        None \<Rightarrow> Inr w
      | Some s \<Rightarrow> if sockets w ! s = OPEN then Inr (w\<lparr>sent := sent w @ [(s, d)]\<rparr>) else Inr w)"
  by (simp add: port_onmessage_def WebSocket_send_def split: option.splits)

text \<open>
  C3. A frame handed over while \<^verbatim>\<open>socketRef\<close> holds no socket, or a socket that is not
  open, is dropped: the handler returns normally with the state as it was, so nothing is
  sent and nothing is kept for later. A frame handed over while the socket is open goes
  out on it as one message. The handler never throws.
\<close>

theorem sendFrame_only_when_ready:
  "(\<not> (\<exists>s. socketRef w = Some s \<and> sockets w ! s = OPEN) \<longrightarrow>
      port_onmessage d w = Inr w \<and> step parse (PortMessage n d) w = w) \<and>
   (\<forall>s. socketRef w = Some s \<and> sockets w ! s = OPEN \<longrightarrow>
      port_onmessage d w = Inr (w\<lparr>sent := sent w @ [(s, d)]\<rparr>)) \<and>
   (\<forall>e. port_onmessage d w \<noteq> Inl e)"
  by (auto simp add: port_onmessage_cases split: option.splits)

theorem sendFrame_only_when_ready_witness:
  "port_onmessage [1, 2] (startStreaming init) = Inr (startStreaming init) \<and>
   port_onmessage [1, 2] (run id [Click, SockOpen 0] init) =
     Inr ((run id [Click, SockOpen 0] init)\<lparr>sent := [(0, [1, 2])]\<rparr>)"
  using sendFrame_only_when_ready [where w = "startStreaming init" and d = "[1, 2]"
      and parse = id and n = 0]
    sendFrame_only_when_ready [where w = "run id [Click, SockOpen 0] init" and d = "[1, 2]"
      and parse = id and n = 0]
  by (simp add: startStreaming_def socket_onopen_def console_write_def init_def)

section \<open>Teardown\<close>

lemma ws_close_released: "ws_close x = CLOSING \<or> ws_close x = CLOSED"
  by (cases x) simp_all

lemma list_update_known: "xs ! a = v \<Longrightarrow> xs[a := v] = xs"
  by auto

lemma stopAudio_fields:
  "isRecording (stopAudio w) = False"
  "socketRef (stopAudio w) = None"
  "audioContextRef (stopAudio w) = None"
  "length (sockets (stopAudio w)) = length (sockets w)"
  "sent (stopAudio w) = sent w"
  "console (stopAudio w) = console w"
  by (simp_all add: stopAudio_def Let_def WebSocket_close_def AudioContext_close_def
      split: option.splits ctxState.splits)

lemma stopAudio_sockets:
  "sockets (stopAudio w) =
     (case socketRef w of None \<Rightarrow> sockets w | Some s \<Rightarrow> (sockets w)[s := ws_close (sockets w ! s)])"
  by (simp add: stopAudio_def Let_def WebSocket_close_def AudioContext_close_def
      split: option.splits ctxState.splits)

lemma stopAudio_contexts:
  "contexts (stopAudio w) =
     (case audioContextRef w of None \<Rightarrow> contexts w | Some c \<Rightarrow> (contexts w)[c := Closed])"
  by (cases "audioContextRef w"; cases "socketRef w")
     (simp_all add: stopAudio_def Let_def WebSocket_close_def AudioContext_close_def
        list_update_known split: ctxState.splits)

lemma stopAudio_no_refs:
  "socketRef w = None \<Longrightarrow> audioContextRef w = None \<Longrightarrow> stopAudio w = w\<lparr>isRecording := False\<rparr>"
  by (simp add: stopAudio_def)

lemma stopAudio_twice: "stopAudio (stopAudio w) = stopAudio w"
proof -
  have "stopAudio (stopAudio w) = (stopAudio w)\<lparr>isRecording := False\<rparr>"
    by (rule stopAudio_no_refs) (simp_all add: stopAudio_fields)
  also have "\<dots> = stopAudio w"
    using stopAudio_fields(1) [of w] by simp
  finally show ?thesis .
qed

text \<open>
  \<^verbatim>\<open>stopAudio\<close> is idempotent: from every state, a second call right after the first leaves
  the state of the first. That state has \<^verbatim>\<open>isRecording\<close> false and both refs empty, the
  socket that was in \<^verbatim>\<open>socketRef\<close> closing or closed and the context that was in
  \<^verbatim>\<open>audioContextRef\<close> closed. No statement of \<^verbatim>\<open>stopAudio\<close> can throw, and the second call
  adds no rejected promise. Nothing is said here about a socket or a context that the refs
  do not hold.
\<close>

lemma stopAudio_idempotent:
  "stopAudio (stopAudio w) = stopAudio w \<and>
   isRecording (stopAudio w) = False \<and> socketRef (stopAudio w) = None \<and>
   audioContextRef (stopAudio w) = None \<and>
   unhandled (stopAudio (stopAudio w)) = unhandled (stopAudio w) \<and>
   (\<forall>s. socketRef w = Some s \<and> s < length (sockets w) \<longrightarrow>
      sockets (stopAudio w) ! s = CLOSING \<or> sockets (stopAudio w) ! s = CLOSED) \<and>
   (\<forall>c. audioContextRef w = Some c \<and> c < length (contexts w) \<longrightarrow>
      contexts (stopAudio w) ! c = Closed)"
  using ws_close_released
  by (simp add: stopAudio_twice stopAudio_fields stopAudio_sockets stopAudio_contexts)

lemma stopAudio_idempotent_example:
  "socketRef (run id [Click, SockOpen 0, Settle 0 granted] init) = Some 0 \<and>
   audioContextRef (run id [Click, SockOpen 0, Settle 0 granted] init) = Some 0 \<and>
   sockets (stopAudio (run id [Click, SockOpen 0, Settle 0 granted] init)) ! 0 = CLOSING \<and>
   contexts (stopAudio (run id [Click, SockOpen 0, Settle 0 granted] init)) ! 0 = Closed \<and>
   stopAudio (stopAudio (run id [Click, SockOpen 0, Settle 0 granted] init)) =
     stopAudio (run id [Click, SockOpen 0, Settle 0 granted] init)"
  using stopAudio_idempotent [of "run id [Click, SockOpen 0, Settle 0 granted] init"]
  by (simp add: startStreaming_def socket_onopen_def console_write_def init_def granted_def
      stopAudio_def WebSocket_close_def AudioContext_close_def)

lemma audio_setup_failed_fields:
  "isRecording (audio_setup_failed e w) = False"
  "socketRef (audio_setup_failed e w) = socketRef w"
  "console (audio_setup_failed e w) = console w @ [Error_Audio_setup_failed e]"
  "sent (audio_setup_failed e w) = sent w"
  "unhandled (audio_setup_failed e w) = unhandled w"
  "length (sockets (audio_setup_failed e w)) = length (sockets w)"
  "sockets (audio_setup_failed e w) =
     (case socketRef w of None \<Rightarrow> sockets w | Some s \<Rightarrow> (sockets w)[s := ws_close (sockets w ! s)])"
  by (simp_all add: audio_setup_failed_def Let_def console_write_def WebSocket_close_def
      split: option.splits)

lemma resume_fields:
  "socketRef (resume t pf w) = socketRef w"
  "sent (resume t pf w) = sent w"
  "length (sockets (resume t pf w)) = length (sockets w)"
  "sockets (resume t pf w) = sockets w \<or>
   (\<exists>s. socketRef w = Some s \<and> sockets (resume t pf w) = (sockets w)[s := ws_close (sockets w ! s)])"
  by (cases t; simp add: Let_def audio_setup_failed_fields split: sum.splits option.splits)+

lemma socket_onmessage_fields:
  "socketRef (socket_onmessage parse p w) = socketRef w"
  "sent (socket_onmessage parse p w) = sent w"
  "sockets (socket_onmessage parse p w) = sockets w"
  by (simp_all add: socket_onmessage_lines)

lemma step_keeps_no_socket:
  assumes "socketRef w = None" and "\<not> is_start e w"
  shows "socketRef (step parse e w) = None \<and> sent (step parse e w) = sent w"
proof (cases e)
  case Click
  then show ?thesis using assms by (simp add: stopAudio_fields)
next
  case Unmount
  then show ?thesis by (simp add: stopAudio_fields)
next
  case (SockOpen s)
  then show ?thesis using assms by (simp add: socket_onopen_def console_write_def)
next
  case (SockMessage s p)
  then show ?thesis using assms by (simp add: socket_onmessage_fields)
next
  case (SockClose s)
  then show ?thesis using assms by (simp add: socket_onclose_def stopAudio_fields)
next
  case (Settle i pf)
  then show ?thesis using assms by (simp add: resume_fields)
next
  case (PortMessage n d)
  then show ?thesis using assms by (simp add: port_onmessage_cases)
qed

lemma run_keeps_no_socket:
  "socketRef w = None \<Longrightarrow> no_start parse es w \<Longrightarrow>
   socketRef (run parse es w) = None \<and> sent (run parse es w) = sent w"
proof (induction es arbitrary: w)
  case Nil
  then show ?case by simp
next
  case (Cons e es)
  from Cons.prems have a: "\<not> is_start e w" and b: "no_start parse es (step parse e w)"
    by simp_all
  from step_keeps_no_socket [OF Cons.prems(1) a, of parse]
  have c: "socketRef (step parse e w) = None" and d: "sent (step parse e w) = sent w"
    by simp_all
  from Cons.IH [OF c b] d show ?case by simp
qed

lemma socket_onclose_is_stopAudio: "socket_onclose w = stopAudio w"
  by (simp add: socket_onclose_def stopAudio_def Let_def AudioContext_close_def
      WebSocket_close_def split: option.splits ctxState.splits)

text \<open>
  When a socket closes, the \<^verbatim>\<open>onclose\<close> handler does what \<^verbatim>\<open>stopAudio\<close> does, and ends in
  the state a local stop would have reached: \<^verbatim>\<open>isRecording\<close> is false, both refs are
  empty, and the context that was in \<^verbatim>\<open>audioContextRef\<close> is closed. From then on a frame
  handed over by the producer is dropped, and nothing more is sent in any continuation
  without a new start request. Nothing is said here about a context that
  \<^verbatim>\<open>audioContextRef\<close> does not hold.
\<close>

lemma remote_close_tears_down:
  assumes "s < length (sockets w)" and "sockets w ! s \<noteq> CLOSED"
  shows "socket_onclose w = stopAudio w \<and>
         step parse (SockClose s) w = stopAudio (w\<lparr>sockets := (sockets w)[s := CLOSED]\<rparr>) \<and>
         isRecording (step parse (SockClose s) w) = False \<and>
         socketRef (step parse (SockClose s) w) = None \<and>
         audioContextRef (step parse (SockClose s) w) = None \<and>
         (\<forall>c. audioContextRef w = Some c \<and> c < length (contexts w) \<longrightarrow>
            contexts (step parse (SockClose s) w) ! c = Closed) \<and>
         sockets (step parse (SockClose s) w) ! s = CLOSED \<and>
         (\<forall>d. port_onmessage d (step parse (SockClose s) w) = Inr (step parse (SockClose s) w)) \<and>
         (\<forall>es. no_start parse es (step parse (SockClose s) w) \<longrightarrow>
            sent (run parse es (step parse (SockClose s) w)) = sent w)"
proof -
  let ?v = "w\<lparr>sockets := (sockets w)[s := CLOSED]\<rparr>"
  have st: "step parse (SockClose s) w = stopAudio ?v"
    using assms by (simp add: socket_onclose_is_stopAudio)
  have none: "socketRef (stopAudio ?v) = None"
    by (simp add: stopAudio_fields)
  have fut: "\<forall>es. no_start parse es (stopAudio ?v) \<longrightarrow> sent (run parse es (stopAudio ?v)) = sent w"
    using run_keeps_no_socket [OF none, where parse = parse] by (simp add: stopAudio_fields)
  have closed: "sockets (stopAudio ?v) ! s = CLOSED"
    using assms(1) by (cases "socketRef w") (auto simp add: stopAudio_sockets nth_list_update)
  have ctx: "\<forall>c. audioContextRef w = Some c \<and> c < length (contexts w) \<longrightarrow>
               contexts (stopAudio ?v) ! c = Closed"
    by (simp add: stopAudio_contexts)
  show ?thesis
    unfolding st using fut closed ctx
    by (simp add: socket_onclose_is_stopAudio stopAudio_fields port_onmessage_cases)
qed

lemma remote_close_tears_down_example:
  "socketRef streaming = Some 0 \<and> sockets streaming ! 0 = OPEN \<and>
   audioContextRef streaming = Some 0 \<and> contexts streaming ! 0 = Running \<and>
   isRecording streaming \<and>
   isRecording (step id (SockClose 0) streaming) = False \<and>
   contexts (step id (SockClose 0) streaming) ! 0 = Closed \<and>
   no_start id [PortMessage 0 [1, 2], Settle 0 granted]
     (step id (SockClose 0) streaming) \<and>
   sent (run id [PortMessage 0 [1, 2], Settle 0 granted]
     (step id (SockClose 0) streaming)) = []"
  using remote_close_tears_down [where w = streaming and s = 0
      and parse = "id :: json option \<Rightarrow> json option"]
  by (simp add: streaming_def startStreaming_def socket_onopen_def console_write_def init_def
      granted_def socket_onclose_def stopAudio_def WebSocket_close_def AudioContext_close_def)

section \<open>What the refs do not hold\<close>

text \<open>
  \<^verbatim>\<open>startStreaming\<close> and \<^verbatim>\<open>onopen\<close> overwrite \<^verbatim>\<open>socketRef\<close> and \<^verbatim>\<open>audioContextRef\<close> without
  closing what they held, and \<^verbatim>\<open>stopAudio\<close> closes only what they hold. A socket or a
  context that was overwritten is out of reach of every teardown.
\<close>

lemma two_sessions_state:
  "sockets two_sessions = [OPEN, OPEN] \<and> contexts two_sessions = [Running, Running] \<and>
   nodes two_sessions = [0, 1] \<and> socketRef two_sessions = Some 1 \<and>
   audioContextRef two_sessions = Some 1 \<and> isRecording two_sessions \<and>
   pending two_sessions = [] \<and> sent two_sessions = []"
  by (simp add: two_sessions_def startStreaming_def socket_onopen_def console_write_def
      init_def granted_def)

text \<open>
  C6 fails on the code while two sessions are alive. Both stream; the socket of the first
  closes. The \<^verbatim>\<open>onclose\<close> handler runs \<^verbatim>\<open>stopAudio\<close>, which closes the context and the
  socket of the second session, the ones the refs hold: \<^verbatim>\<open>isRecording\<close> is false and the
  refs are empty, but the context of the session whose connection has closed keeps
  running. Its producer goes on handing over frames, and after the next start request
  they are sent on the new connection.
\<close>

theorem remote_close_leaves_context_running:
  "contexts (step (id :: json option \<Rightarrow> json option) (SockClose 0) two_sessions) =
     [Running, Closed] \<and>
   sockets (step (id :: json option \<Rightarrow> json option) (SockClose 0) two_sessions) =
     [CLOSED, CLOSING] \<and>
   isRecording (step (id :: json option \<Rightarrow> json option) (SockClose 0) two_sessions) = False \<and>
   audioContextRef (step (id :: json option \<Rightarrow> json option) (SockClose 0) two_sessions) = None \<and>
   sent (run (id :: json option \<Rightarrow> json option)
           [SockClose 0, Click, SockOpen 2, PortMessage 0 [1, 2]] two_sessions) =
     [(2, [1, 2])]"
  by (simp add: two_sessions_state socket_onclose_def stopAudio_def WebSocket_close_def
      AudioContext_close_def startStreaming_def socket_onopen_def console_write_def
      port_onmessage_def WebSocket_send_def)

text \<open>
  C7 fails on the code in the same way. Calling \<^verbatim>\<open>stopAudio\<close> twice gives the state of
  calling it once, but that state is not the one the claim names. After two start
  requests the first socket is still connecting after both calls, and when it opens its
  \<^verbatim>\<open>onopen\<close> sets \<^verbatim>\<open>isRecording\<close> without any start request. With two sessions alive the
  context of the first keeps running after both calls and its socket stays open.
\<close>

theorem stop_twice_leaves_first_session:
  "sockets (stopAudio (stopAudio (run (id :: json option \<Rightarrow> json option) [Click, Click] init))) =
     [CONNECTING, CLOSING] \<and>
   isRecording (step (id :: json option \<Rightarrow> json option) (SockOpen 0)
     (stopAudio (stopAudio (run (id :: json option \<Rightarrow> json option) [Click, Click] init)))) \<and>
   sockets (stopAudio (stopAudio two_sessions)) = [OPEN, CLOSING] \<and>
   contexts (stopAudio (stopAudio two_sessions)) = [Running, Closed] \<and>
   isRecording (stopAudio (stopAudio two_sessions)) = False \<and>
   socketRef (stopAudio (stopAudio two_sessions)) = None \<and>
   audioContextRef (stopAudio (stopAudio two_sessions)) = None"
  by (simp add: stopAudio_twice two_sessions_state stopAudio_def WebSocket_close_def
      AudioContext_close_def startStreaming_def socket_onopen_def console_write_def init_def)

section \<open>Failure of the device acquisition\<close>

lemma step_held_or_released:
  assumes "held_or_released s w" and "\<not> is_start e w"
  shows "held_or_released s (step parse e w)"
proof (cases e)
  case Click
  then show ?thesis using assms ws_close_released [of "sockets w ! s"]
    by (auto simp add: held_or_released_def stopAudio_fields stopAudio_sockets)
next
  case Unmount
  then show ?thesis using assms ws_close_released [of "sockets w ! s"]
    by (auto simp add: held_or_released_def stopAudio_fields stopAudio_sockets)
next
  case (SockOpen s')
  then show ?thesis using assms
    by (auto simp add: held_or_released_def socket_onopen_def console_write_def nth_list_update)
next
  case (SockMessage s' p)
  then show ?thesis using assms
    by (simp add: held_or_released_def socket_onmessage_fields)
next
  case (SockClose s')
  then show ?thesis using assms ws_close_released [of "(sockets w)[s' := CLOSED] ! s"]
    by (auto simp add: held_or_released_def socket_onclose_is_stopAudio stopAudio_fields
        stopAudio_sockets nth_list_update split: if_splits)
next
  case (Settle i pf)
  let ?v = "w\<lparr>pending := take i (pending w) @ drop (Suc i) (pending w)\<rparr>"
  show ?thesis
  proof (cases "i < length (pending w)")
    case True
    from resume_fields(4) [of "pending w ! i" pf ?v] assms(1) ws_close_released [of "sockets w ! s"]
    show ?thesis using Settle True
      by (auto simp add: held_or_released_def resume_fields)
  next
    case False
    then show ?thesis using Settle assms by simp
  qed
next
  case (PortMessage n d)
  then show ?thesis using assms
    by (auto simp add: held_or_released_def port_onmessage_cases split: option.splits)
qed

lemma run_held_or_released:
  "held_or_released s w \<Longrightarrow> no_start parse es w \<Longrightarrow> held_or_released s (run parse es w)"
proof (induction es arbitrary: w)
  case Nil
  then show ?case by simp
next
  case (Cons e es)
  from Cons.prems have a: "\<not> is_start e w" and b: "no_start parse es (step parse e w)"
    by simp_all
  from Cons.IH [OF step_held_or_released [OF Cons.prems(1) a] b] show ?case by simp
qed

lemma startStreaming_held: "held_or_released (length (sockets w)) (startStreaming w)"
  by (simp add: held_or_released_def startStreaming_def Let_def)

text \<open>
  Let the \<^verbatim>\<open>getUserMedia\<close> awaited by an \<^verbatim>\<open>onopen\<close> be rejected. Then \<^verbatim>\<open>isRecording\<close> is false,
  the error is on the error console, the socket held in \<^verbatim>\<open>socketRef\<close> is closing or
  closed, and the handler has returned normally: no rejection is left unhandled and the
  event loop goes on. After a start request and any events that contain no further start
  request, the socket closed is the one that start request has made.
\<close>

lemma device_failure_recovers:
  assumes "i < length (pending w)" and "pending w ! i = AwaitGetUserMedia k"
    and "getUserMedia pf = Inl err"
  shows "isRecording (step parse (Settle i pf) w) = False \<and>
         console (step parse (Settle i pf) w) = console w @ [Error_Audio_setup_failed err] \<and>
         unhandled (step parse (Settle i pf) w) = unhandled w \<and>
         sent (step parse (Settle i pf) w) = sent w \<and>
         (\<forall>s. socketRef w = Some s \<and> s < length (sockets w) \<longrightarrow>
            sockets (step parse (Settle i pf) w) ! s = CLOSING \<or>
            sockets (step parse (Settle i pf) w) ! s = CLOSED) \<and>
         (\<forall>w0 es. w = run parse es (startStreaming w0) \<and>
                  no_start parse es (startStreaming w0) \<longrightarrow>
            sockets (step parse (Settle i pf) w) ! length (sockets w0) = CLOSING \<or>
            sockets (step parse (Settle i pf) w) ! length (sockets w0) = CLOSED)"
proof -
  let ?v = "w\<lparr>pending := take i (pending w) @ drop (Suc i) (pending w)\<rparr>"
  have st: "step parse (Settle i pf) w = audio_setup_failed err ?v"
    using assms by simp
  have rel: "sockets (audio_setup_failed err ?v) ! s = CLOSING \<or>
             sockets (audio_setup_failed err ?v) ! s = CLOSED"
    if "held_or_released s w" for s
    using that ws_close_released [of "sockets w ! s"]
    by (auto simp add: held_or_released_def audio_setup_failed_fields)
  have held: "\<forall>s. socketRef w = Some s \<and> s < length (sockets w) \<longrightarrow>
            sockets (audio_setup_failed err ?v) ! s = CLOSING \<or>
            sockets (audio_setup_failed err ?v) ! s = CLOSED"
    using rel by (simp add: held_or_released_def)
  have started: "\<forall>w0 es. w = run parse es (startStreaming w0) \<and>
                  no_start parse es (startStreaming w0) \<longrightarrow>
            sockets (audio_setup_failed err ?v) ! length (sockets w0) = CLOSING \<or>
            sockets (audio_setup_failed err ?v) ! length (sockets w0) = CLOSED"
    using rel run_held_or_released [OF startStreaming_held] by blast
  show ?thesis
    unfolding st using held started by (simp add: audio_setup_failed_fields)
qed

lemma device_failure_recovers_example:
  "no_start id [SockOpen 0] (startStreaming init) \<and>
   pending (run id [SockOpen 0] (startStreaming init)) ! 0 = AwaitGetUserMedia 0 \<and>
   isRecording (run id [SockOpen 0] (startStreaming init)) \<and>
   sockets (run id [SockOpen 0] (startStreaming init)) ! 0 = OPEN \<and>
   isRecording (step id (Settle 0 denied) (run id [SockOpen 0] (startStreaming init))) = False \<and>
   sockets (step id (Settle 0 denied) (run id [SockOpen 0] (startStreaming init))) ! 0 = CLOSING \<and>
   console (step id (Settle 0 denied) (run id [SockOpen 0] (startStreaming init))) =
     [Log_WebSocket_connected, Error_Audio_setup_failed NotAllowedError]"
  using device_failure_recovers [where k = 0 and parse = id
      and w = "run id [SockOpen 0] (startStreaming init)"
      and i = 0 and pf = denied and err = NotAllowedError]
  by (simp add: startStreaming_def socket_onopen_def console_write_def init_def denied_def
      audio_setup_failed_def WebSocket_close_def)


text \<open>
  C9 fails on the code in one case. A second start request made before the first socket
  has opened replaces the socket in \<^verbatim>\<open>socketRef\<close>. When the first socket then opens and the
  device acquisition of its session fails, the \<^verbatim>\<open>catch\<close> block closes the socket in
  \<^verbatim>\<open>socketRef\<close>, which is the second one: \<^verbatim>\<open>isRecording\<close> is false and the error is on the
  error console, but the connection opened for the failing session stays open, and
  \<^verbatim>\<open>socketRef\<close> does not hold it.
\<close>

theorem second_start_leaves_first_socket_open:
  "sockets (run (id :: json option \<Rightarrow> json option)
              [Click, Click, SockOpen 0, Settle 0 denied] init) = [OPEN, CLOSING] \<and>
   socketRef (run (id :: json option \<Rightarrow> json option)
              [Click, Click, SockOpen 0, Settle 0 denied] init) = Some 1 \<and>
   isRecording (run (id :: json option \<Rightarrow> json option)
              [Click, Click, SockOpen 0, Settle 0 denied] init) = False \<and>
   console (run (id :: json option \<Rightarrow> json option)
              [Click, Click, SockOpen 0, Settle 0 denied] init) =
     [Log_WebSocket_connected, Error_Audio_setup_failed NotAllowedError]"
  by (simp add: startStreaming_def socket_onopen_def console_write_def init_def denied_def
      audio_setup_failed_def WebSocket_close_def)

section \<open>The producer copies\<close>

lemma process_frames_exist:
  "frames_exist r \<Longrightarrow> frames_exist (fst (process inputs r))"
  by (auto simp add: frames_exist_def process_def Let_def nth_append split: list.splits)

lemma render_frames_exist:
  "frames_exist r \<Longrightarrow> frames_exist (render qs r)"
  by (induction qs arbitrary: r) (simp_all add: process_frames_exist)

text \<open>
  C4. A call of \<^verbatim>\<open>process\<close> with input present posts one object. It is new: it is neither
  the engine's buffer nor any object posted before. It has the contents, and so the
  length, of channel 0 of the input, and the message on the port carries these contents.
  The objects that were there keep their contents. Writing into the new object changes no
  other object, and writing into any other object, the engine's buffer or an earlier
  frame, does not change the new one. Over any further calls all posted objects stay
  different from one another.
\<close>

theorem process_emits_fresh_copy:
  assumes "inputs = (ch0 # chs) # others"
    and "ch0 < length (heap r)"
    and "frames_exist r"
  shows "snd (process inputs r) = True \<and>
         emitted (fst (process inputs r)) = emitted r @ [length (heap r)] \<and>
         length (heap r) \<noteq> ch0 \<and> length (heap r) \<notin> set (emitted r) \<and>
         heap (fst (process inputs r)) ! length (heap r) = heap r ! ch0 \<and>
         length (heap (fst (process inputs r)) ! length (heap r)) = length (heap r ! ch0) \<and>
         messages (fst (process inputs r)) = messages r @ [heap r ! ch0] \<and>
         (\<forall>b < length (heap r). heap (fst (process inputs r)) ! b = heap r ! b) \<and>
         (\<forall>b i v. b \<noteq> length (heap r) \<longrightarrow>
            write_sample (length (heap r)) i v (heap (fst (process inputs r))) ! b =
              heap (fst (process inputs r)) ! b) \<and>
         (\<forall>b i v. b \<noteq> length (heap r) \<longrightarrow>
            write_sample b i v (heap (fst (process inputs r))) ! length (heap r) =
              heap r ! ch0) \<and>
         frames_exist (render qs (fst (process inputs r)))"
proof -
  have p: "process inputs r =
             (r\<lparr>heap := heap r @ [heap r ! ch0],
                emitted := emitted r @ [length (heap r)],
                messages := messages r @ [heap r ! ch0]\<rparr>, True)"
    using assms(1) by (simp add: process_def Let_def)
  have fresh: "length (heap r) \<notin> set (emitted r)"
    using assms(3) by (auto simp add: frames_exist_def)
  have later: "frames_exist (render qs (fst (process inputs r)))"
    using assms(3) by (intro render_frames_exist process_frames_exist)
  have now: "snd (process inputs r) = True \<and>
         emitted (fst (process inputs r)) = emitted r @ [length (heap r)] \<and>
         length (heap r) \<noteq> ch0 \<and>
         heap (fst (process inputs r)) ! length (heap r) = heap r ! ch0 \<and>
         length (heap (fst (process inputs r)) ! length (heap r)) = length (heap r ! ch0) \<and>
         messages (fst (process inputs r)) = messages r @ [heap r ! ch0] \<and>
         (\<forall>b < length (heap r). heap (fst (process inputs r)) ! b = heap r ! b)"
    using assms(2) by (simp add: p nth_append)
  have writes: "(\<forall>b i v. b \<noteq> length (heap r) \<longrightarrow>
            write_sample (length (heap r)) i v (heap (fst (process inputs r))) ! b =
              heap (fst (process inputs r)) ! b) \<and>
         (\<forall>b i v. b \<noteq> length (heap r) \<longrightarrow>
            write_sample b i v (heap (fst (process inputs r))) ! length (heap r) =
              heap r ! ch0)"
    by (auto simp add: p write_sample_def nth_append nth_list_update nth_Cons')
  show ?thesis
    using now writes fresh later by blast
qed

theorem process_emits_fresh_copy_witness:
  "frames_exist worklet0 \<and>
   emitted (fst (process [[0]] worklet0)) = [1] \<and>
   heap (fst (process [[0]] worklet0)) ! 1 = [1, 2, 3] \<and>
   write_sample 1 0 9 (heap (fst (process [[0]] worklet0))) ! 0 = [1, 2, 3] \<and>
   write_sample 0 0 9 (heap (fst (process [[0]] worklet0))) ! 1 = [1, 2, 3] \<and>
   emitted (render [[[0]]] (fst (process [[0]] worklet0))) = [1, 2] \<and>
   write_sample 2 0 9 (heap (render [[[0]]] (fst (process [[0]] worklet0)))) ! 1 = [1, 2, 3]"
  using process_emits_fresh_copy [where inputs = "[[0]]" and ?ch0.0 = 0 and chs = "[]"
      and others = "[]" and r = worklet0 and qs = "[[[0]]]"]
  by (simp add: worklet0_def frames_exist_def process_def write_sample_def)

section \<open>The order of a session\<close>

lemma preceded_append:
  "preceded a b (xs @ ys) = (preceded a b xs \<and> (a \<in> set xs \<or> preceded a b ys))"
  by (induction xs) auto

lemma task_ok_append: "task_ok tr t \<Longrightarrow> task_ok (tr @ xs) t"
  by (cases t) simp_all

lemma stopAudio_trace:
  "trace (stopAudio w) = trace w" "pending (stopAudio w) = pending w"
  by (simp_all add: stopAudio_def Let_def WebSocket_close_def AudioContext_close_def
      split: option.splits ctxState.splits)

lemma audio_setup_failed_trace:
  "trace (audio_setup_failed e w) = trace w" "pending (audio_setup_failed e w) = pending w"
  by (simp_all add: audio_setup_failed_def Let_def console_write_def WebSocket_close_def
      split: option.splits)

lemma trace_inv_cong:
  "trace_inv w \<Longrightarrow> trace v = trace w \<Longrightarrow> pending v = pending w \<Longrightarrow>
   length (sockets v) = length (sockets w) \<Longrightarrow> trace_inv v"
  by (simp add: trace_inv_def)

lemma trace_inv_failed: "trace_inv w \<Longrightarrow> trace_inv (audio_setup_failed e w)"
  by (erule trace_inv_cong) (simp_all add: audio_setup_failed_fields(6) audio_setup_failed_trace)

lemma trace_inv_stopAudio: "trace_inv w \<Longrightarrow> trace_inv (stopAudio w)"
  by (erule trace_inv_cong) (simp_all add: stopAudio_fields stopAudio_trace)

lemma trace_inv_drop_task:
  "trace_inv w \<Longrightarrow> trace_inv (w\<lparr>pending := take i (pending w) @ drop (Suc i) (pending w)\<rparr>)"
  by (auto simp add: trace_inv_def dest: in_set_takeD in_set_dropD)

lemma trace_inv_startStreaming: "trace_inv w \<Longrightarrow> trace_inv (startStreaming w)"
  by (auto simp add: trace_inv_def startStreaming_def Let_def session_order_def preceded_append
      less_Suc_eq task_ok_append)

lemma trace_inv_open:
  assumes "trace_inv w" and "s < length (sockets w)"
  shows "trace_inv (socket_onopen s (w\<lparr>sockets := (sockets w)[s := OPEN],
                                        trace := trace w @ [Opened s]\<rparr>))"
  using assms
  by (auto simp add: trace_inv_def socket_onopen_def console_write_def Let_def session_order_def
      preceded_append task_ok_append)

lemma trace_inv_resume:
  assumes "trace_inv w" and "task_ok (trace w) t"
  shows "trace_inv (resume t pf w)"
proof (cases t)
  case (AwaitGetUserMedia s)
  have g: "trace_inv (w\<lparr>trace := trace w @ [Granted s]\<rparr>)"
    using assms AwaitGetUserMedia
    by (auto simp add: trace_inv_def session_order_def preceded_append task_ok_append)
  show ?thesis
  proof (cases "getUserMedia pf")
    case (Inl e)
    then show ?thesis using AwaitGetUserMedia assms(1)
      by (simp add: trace_inv_failed)
  next
    case (Inr stream)
    show ?thesis
    proof (cases "newAudioContext pf")
      case (Some e)
      then show ?thesis using AwaitGetUserMedia Inr trace_inv_failed [OF g]
        by simp
    next
      case None
      have "task_ok (trace w @ [Granted s]) (AwaitAddModule s (length (contexts w)) stream)"
        using assms(2) AwaitGetUserMedia by simp
      then show ?thesis using AwaitGetUserMedia Inr None g
        by (simp add: trace_inv_def Let_def)
    qed
  qed
next
  case (AwaitAddModule s c stream)
  have g: "trace_inv (w\<lparr>nodes := nodes w @ [c], workletNodeRef := Some (length (nodes w)),
                       trace := trace w @ [Installed s, Wired s]\<rparr>)"
    using assms AwaitAddModule
    by (auto simp add: trace_inv_def session_order_def preceded_append task_ok_append)
  have f: "\<And>e. trace_inv (audio_setup_failed e w)"
    using assms(1) by (rule trace_inv_failed)
  show ?thesis using AwaitAddModule g f
    by (simp split: option.splits)
qed

lemma trace_inv_step: "trace_inv w \<Longrightarrow> trace_inv (step parse e w)"
proof (cases e)
  case Click
  assume "trace_inv w"
  then show ?thesis using Click
    by (simp add: trace_inv_stopAudio trace_inv_startStreaming)
next
  case Unmount
  assume "trace_inv w"
  then show ?thesis using Unmount
    by (simp add: trace_inv_stopAudio)
next
  case (SockOpen s)
  assume "trace_inv w"
  then show ?thesis using SockOpen by (simp add: trace_inv_open)
next
  case (SockMessage s p)
  assume "trace_inv w"
  then have "trace_inv (socket_onmessage parse p w)"
    by (rule trace_inv_cong) (simp_all add: socket_onmessage_lines)
  then show ?thesis using SockMessage \<open>trace_inv w\<close> by simp
next
  case (SockClose s)
  assume "trace_inv w"
  then have "trace_inv (w\<lparr>sockets := (sockets w)[s := CLOSED]\<rparr>)"
    by (rule trace_inv_cong) simp_all
  then have "trace_inv (socket_onclose (w\<lparr>sockets := (sockets w)[s := CLOSED]\<rparr>))"
    unfolding socket_onclose_is_stopAudio by (rule trace_inv_stopAudio)
  then show ?thesis using SockClose \<open>trace_inv w\<close> by simp
next
  case (Settle i pf)
  assume a: "trace_inv w"
  show ?thesis
  proof (cases "i < length (pending w)")
    case True
    then have "task_ok (trace w) (pending w ! i)"
      using a by (simp add: trace_inv_def)
    then have "trace_inv (resume (pending w ! i) pf
                 (w\<lparr>pending := take i (pending w) @ drop (Suc i) (pending w)\<rparr>))"
      using trace_inv_drop_task [OF a, of i] by (intro trace_inv_resume) simp_all
    then show ?thesis using Settle True by simp
  next
    case False
    then show ?thesis using Settle a by simp
  qed
next
  case (PortMessage n d)
  assume "trace_inv w"
  then have "trace_inv (case port_onmessage d w of
                          Inl e \<Rightarrow> w\<lparr>unhandled := unhandled w @ [e]\<rparr> | Inr w' \<Rightarrow> w')"
    by (rule trace_inv_cong) (simp_all add: port_onmessage_cases split: option.splits)
  then show ?thesis using PortMessage \<open>trace_inv w\<close> by simp
qed

lemma trace_inv_run: "trace_inv w \<Longrightarrow> trace_inv (run parse es w)"
  by (induction es arbitrary: w) (simp_all add: trace_inv_step)

lemma trace_inv_init: "trace_inv init"
  by (simp add: trace_inv_def init_def session_order_def)

lemma preceded_trans:
  "preceded a b tr \<Longrightarrow> preceded b c tr \<Longrightarrow> preceded a c tr"
  by (induction tr) auto

text \<open>
  C2, as the code has it. \<^verbatim>\<open>startStreaming\<close> makes the connection first; the microphone
  is asked for in \<^verbatim>\<open>onopen\<close>, that is only after the transport has signalled that it is
  ready. In every run, for every session: the socket is made before it opens and before
  the microphone is asked for or granted; the producer is installed only after the grant;
  and the port is wired to the send only after the producer is installed, so never
  before the transport has signalled that it is ready.
\<close>

theorem connection_first_wiring_last:
  "session_order s (trace (run parse es init)) \<and>
   preceded (NewWebSocket s) (GetUserMedia s) (trace (run parse es init)) \<and>
   preceded (NewWebSocket s) (Granted s) (trace (run parse es init)) \<and>
   preceded (Opened s) (Installed s) (trace (run parse es init))"
proof -
  let ?tr = "trace (run parse es init)"
  have o: "session_order s ?tr"
    using trace_inv_run [OF trace_inv_init, of parse es] by (simp add: trace_inv_def)
  then have a: "preceded (NewWebSocket s) (GetUserMedia s) ?tr"
    by (auto simp add: session_order_def intro: preceded_trans)
  have b: "preceded (NewWebSocket s) (Granted s) ?tr"
    using a o by (auto simp add: session_order_def intro: preceded_trans)
  have c: "preceded (Opened s) (Granted s) ?tr"
    using o by (auto simp add: session_order_def intro: preceded_trans)
  have d: "preceded (Opened s) (Installed s) ?tr"
    using c o by (auto simp add: session_order_def intro: preceded_trans)
  show ?thesis using o a b d by simp
qed

theorem connection_first_wiring_last_witness:
  "trace streaming =
     [NewWebSocket 0, Opened 0, GetUserMedia 0, Granted 0, Installed 0, Wired 0] \<and>
   preceded (Opened 0) (Wired 0) (trace streaming) \<and>
   preceded (NewWebSocket 0) (Granted 0) (trace streaming)"
  using connection_first_wiring_last [where s = 0
      and parse = "id :: json option \<Rightarrow> json option"
      and es = "[Click, SockOpen 0, Settle 0 granted, Settle 0 granted]"]
  by (simp add: streaming_def startStreaming_def socket_onopen_def console_write_def init_def
      granted_def session_order_def)

text \<open>
  The claim C2 as the specification states it fails: after the start request alone the
  connection is made, and no microphone access was granted and no producer installed
  before.
\<close>

theorem connection_first_counterexample:
  "trace (run (id :: json option \<Rightarrow> json option) [Click] init) = [NewWebSocket 0] \<and>
   \<not> preceded (Granted 0) (NewWebSocket 0)
       (trace (run (id :: json option \<Rightarrow> json option) [Click] init)) \<and>
   \<not> preceded (Installed 0) (NewWebSocket 0)
       (trace (run (id :: json option \<Rightarrow> json option) [Click] init))"
  by (simp add: startStreaming_def init_def)

end
